theory Spec2Isabelle
  imports Main
begin

section \<open>The admin dashboard page (src/pages/admin/AdminDashboard.tsx)\<close>

subsection \<open>Data\<close>

text \<open>
  A booking as the page reads and writes it: \<open>b.id\<close>, \<open>b.status\<close>,
  \<open>b.rejectionReason\<close> and \<open>b.meetingLink\<close>. The declaration of the type
  (types/booking) is not part of the page; every field the page never touches is kept in
  \<open>other_fields\<close>, of a type the page does not look into. The status is the JavaScript
  string that the page compares with the value of the status selector. An optional
  property that is absent is \<open>None\<close>.
\<close>

record 'p Booking =
  booking_id :: string
  status :: string
  rejectionReason :: "string option"
  meetingLink :: "string option"
  other_fields :: 'p

text \<open>
  What a \<open>catch (error: any)\<close> clause of the page reads of a thrown value that has
  properties: \<open>error.message\<close> and \<open>error.code\<close>, each possibly undefined.
\<close>

record js_error =
  message :: "string option"
  code :: "string option"

text \<open>
  The value a promise is rejected with is not constrained by the page (\<open>error: any\<close>).
  It is either \<open>undefined\<close> or \<open>null\<close>, of which no property can be read, or
  any other value, of which the page reads the two properties above (a value without them,
  such as a thrown string, has both undefined).
\<close>

datatype thrown = Nullish | ErrorObject js_error

text \<open>
  The collaborators of the page are called for effect. Each call is written to a trace,
  oldest first: the router (\<open>navigate\<close>), the notification sink (\<open>toast\<close>),
  the console, the booking service and the browser's prompt.
  \<open>UncaughtTypeError\<close> is the end of a handler whose catch block reads
  \<open>error.message\<close> of \<open>undefined\<close> or \<open>null\<close>: the read raises a TypeError that
  nothing catches, no later statement of the handler runs, and the promise the async
  function returned is rejected.
\<close>

datatype effect =
    Navigate string
  | ToastError string
  | ToastSuccess string
  | ConsoleError string thrown
  | WindowPrompt string
  | FetchBookings
  | UpdateBookingStatus string string "string option"
  | GenerateMeetingLink string
  | UncaughtTypeError

text \<open>The four \<open>useState\<close> cells of the component, and the trace.\<close>

record 'p page =
  bookings :: "'p Booking list"
  loading :: bool
  globalFilter :: string
  statusFilter :: string
  effects :: "effect list"

subsection \<open>Primitives\<close>

definition emit :: "effect \<Rightarrow> 'p page \<Rightarrow> 'p page" where
  "emit e st = st\<lparr>effects := effects st @ [e]\<rparr>"

definition navigate :: "string \<Rightarrow> 'p page \<Rightarrow> 'p page" where
  "navigate path st = emit (Navigate path) st"

definition toast_error :: "string \<Rightarrow> 'p page \<Rightarrow> 'p page" where
  "toast_error msg st = emit (ToastError msg) st"

definition toast_success :: "string \<Rightarrow> 'p page \<Rightarrow> 'p page" where
  "toast_success msg st = emit (ToastSuccess msg) st"

definition console_error :: "string \<Rightarrow> thrown \<Rightarrow> 'p page \<Rightarrow> 'p page" where
  "console_error label error st = emit (ConsoleError label error) st"

text \<open>
  \<open>setBookings\<close> with an updater function, as React applies it to the previous value.
\<close>

definition setBookings ::
  "('p Booking list \<Rightarrow> 'p Booking list) \<Rightarrow> 'p page \<Rightarrow> 'p page" where
  "setBookings updater st = st\<lparr>bookings := updater (bookings st)\<rparr>"

definition setLoading :: "bool \<Rightarrow> 'p page \<Rightarrow> 'p page" where
  "setLoading v st = st\<lparr>loading := v\<rparr>"

text \<open>
  JavaScript's \<open>error.message || fallback\<close>: the right operand is taken when the left
  one is falsy, which for a string or undefined means undefined or the empty string.
\<close>

definition or_else :: "string option \<Rightarrow> string \<Rightarrow> string" where
  "or_else m fallback =
     (case m of None \<Rightarrow> fallback | Some s \<Rightarrow> if s = [] then fallback else s)"

subsection \<open>Page activation\<close>

text \<open>
  \<open>loadBookings\<close>, run by the effect hook. \<open>currentUser\<close> is
  \<open>auth.currentUser\<close>, \<open>isAdmin\<close> the value \<open>isAdmin()\<close> returns, and
  \<open>fetched\<close> what the promise of \<open>fetchBookings()\<close> settles with: \<open>Inr data\<close>
  when it is fulfilled, \<open>Inl error\<close> when it is rejected. The \<open>finally\<close> block runs
  on every path, the early returns and the TypeError raised in the catch block included.
\<close>

definition loadBookings ::
  "'u option \<Rightarrow> bool \<Rightarrow> thrown + 'p Booking list \<Rightarrow> 'p page \<Rightarrow> 'p page" where
  "loadBookings currentUser isAdmin fetched st =
     setLoading False
       (if currentUser = None then navigate ''/admin/login'' st
        else if \<not> isAdmin then
          (let st = toast_error ''Unauthorized access'' st;
               st = navigate ''/admin/login'' st
           in st)
        else
          (let st = emit FetchBookings st in
           case fetched of
             Inr data \<Rightarrow> setBookings (\<lambda>_. data) st
           | Inl error \<Rightarrow>
               (let st = console_error ''Error fetching bookings:'' error st in
                case error of
                  Nullish \<Rightarrow> emit UncaughtTypeError st
                | ErrorObject e \<Rightarrow>
                    (let st = toast_error (or_else (message e) ''Failed to fetch bookings'') st
                     in if code e = Some ''permission-denied''
                           \<or> message e = Some ''Unauthorized access''
                        then navigate ''/admin/login'' st else st))))"

subsection \<open>The three actions\<close>

text \<open>
  In each handler \<open>response\<close> is what the awaited promise of the service call settles
  with. The \<open>booking\<close> argument is passed by the table and not used. In each catch
  block \<open>console.error\<close> is called with the thrown value first; the argument of
  \<open>toast.error\<close> is evaluated next, and reading \<open>error.message\<close> there raises the
  TypeError when the value is \<open>undefined\<close> or \<open>null\<close>.
\<close>

definition handleApprove ::
  "thrown + unit \<Rightarrow> string \<Rightarrow> 'p Booking \<Rightarrow> 'p page \<Rightarrow> 'p page" where
  "handleApprove response bookingId booking st =
     (let st = emit (UpdateBookingStatus bookingId ''approved'' None) st in
      case response of
        Inr _ \<Rightarrow>
          (let st = setBookings (\<lambda>prev.
                      map (\<lambda>b. if booking_id b = bookingId
                                then b\<lparr>status := ''approved''\<rparr> else b) prev) st;
               st = toast_success ''Booking approved successfully'' st
           in st)
      | Inl error \<Rightarrow>
          (let st = console_error ''Error approving booking:'' error st in
           case error of
             Nullish \<Rightarrow> emit UncaughtTypeError st
           | ErrorObject e \<Rightarrow>
               (let st = toast_error (or_else (message e) ''Failed to approve booking'') st
                in if message e = Some ''Unauthorized access''
                   then navigate ''/admin/login'' st else st)))"

text \<open>
  \<open>reason\<close> is what \<open>window.prompt\<close> returns: \<open>None\<close> for null (the user
  cancelled), \<open>Some s\<close> for the text entered, which may be empty.
\<close>

definition handleReject ::
  "string option \<Rightarrow> thrown + unit \<Rightarrow> string \<Rightarrow> 'p Booking \<Rightarrow> 'p page \<Rightarrow> 'p page" where
  "handleReject reason response bookingId booking st =
     (let st = emit (WindowPrompt ''Please enter a reason for rejection:'') st in
      case reason of
        None \<Rightarrow> st
      | Some r \<Rightarrow>
          (let st = emit (UpdateBookingStatus bookingId ''rejected'' (Some r)) st in
           case response of
             Inr _ \<Rightarrow>
               (let st = setBookings (\<lambda>prev.
                           map (\<lambda>b. if booking_id b = bookingId
                                     then b\<lparr>status := ''rejected'', rejectionReason := Some r\<rparr>
                                     else b) prev) st;
                    st = toast_success ''Booking rejected successfully'' st
                in st)
           | Inl error \<Rightarrow>
               (let st = console_error ''Error rejecting booking:'' error st in
                case error of
                  Nullish \<Rightarrow> emit UncaughtTypeError st
                | ErrorObject e \<Rightarrow>
                    (let st = toast_error (or_else (message e) ''Failed to reject booking'') st
                     in if message e = Some ''Unauthorized access''
                        then navigate ''/admin/login'' st else st))))"

definition handleGenerateMeetLink ::
  "thrown + string \<Rightarrow> string \<Rightarrow> 'p Booking \<Rightarrow> 'p page \<Rightarrow> 'p page" where
  "handleGenerateMeetLink response bookingId booking st =
     (let st = emit (GenerateMeetingLink bookingId) st in
      case response of
        Inr meetLink \<Rightarrow>
          (let st = setBookings (\<lambda>prev.
                      map (\<lambda>b. if booking_id b = bookingId
                                then b\<lparr>meetingLink := Some meetLink\<rparr> else b) prev) st;
               st = toast_success ''Meeting link generated successfully'' st
           in st)
      | Inl error \<Rightarrow>
          (let st = console_error ''Error generating meeting link:'' error st in
           case error of
             Nullish \<Rightarrow> emit UncaughtTypeError st
           | ErrorObject e \<Rightarrow>
               (let st = toast_error
                           (or_else (message e) ''Failed to generate meeting link'') st
                in if message e = Some ''Unauthorized access''
                   then navigate ''/admin/login'' st else st)))"

subsection \<open>Rendering\<close>

text \<open>
  What the component returns: the spinner while \<open>loading\<close>, otherwise the dashboard,
  of which the model keeps the two data properties handed to \<open>BookingTable\<close>.
\<close>

record 'p BookingTableProps =
  bookings_prop :: "'p Booking list"
  globalFilter_prop :: string

datatype 'p view = Spinner | Dashboard "'p BookingTableProps"

definition render :: "'p page \<Rightarrow> 'p view" where
  "render st =
     (if loading st then Spinner
      else Dashboard
        \<lparr>bookings_prop =
           filter (\<lambda>booking. statusFilter st = ''all'' \<or> status booking = statusFilter st)
             (bookings st),
         globalFilter_prop = globalFilter st\<rparr>)"

subsection \<open>Sequences of actions\<close>

text \<open>
  The table calls the three handlers back with an id and a record. An action is one such
  call together with what the environment answers to it: the text the prompt returns and
  what the service call settles with. The page runs one handler to its end before the
  next one changes the bookings.
\<close>

datatype 'p action =
    Approve string "'p Booking" "thrown + unit"
  | Reject string "'p Booking" "string option" "thrown + unit"
  | GenerateLink string "'p Booking" "thrown + string"

fun dispatch :: "'p action \<Rightarrow> 'p page \<Rightarrow> 'p page" where
  "dispatch (Approve bookingId booking response) st =
     handleApprove response bookingId booking st"
| "dispatch (Reject bookingId booking reason response) st =
     handleReject reason response bookingId booking st"
| "dispatch (GenerateLink bookingId booking response) st =
     handleGenerateMeetLink response bookingId booking st"

fun run :: "'p action list \<Rightarrow> 'p page \<Rightarrow> 'p page" where
  "run [] st = st"
| "run (a # as) st = run as (dispatch a st)"

text \<open>
  The status an action sets on the records with id \<open>i\<close>, if it sets one: only an
  Approve or a Reject on \<open>i\<close> whose service call succeeded does. \<open>reason_of\<close> is the
  reason a successful Reject on \<open>i\<close> was given.
\<close>

fun transition_of :: "string \<Rightarrow> 'p action \<Rightarrow> string option" where
  "transition_of i (Approve j _ (Inr _)) = (if j = i then Some ''approved'' else None)"
| "transition_of i (Reject j _ (Some _) (Inr _)) = (if j = i then Some ''rejected'' else None)"
| "transition_of i _ = None"

fun reason_of :: "string \<Rightarrow> 'p action \<Rightarrow> string option" where
  "reason_of i (Reject j _ (Some r) (Inr _)) = (if j = i then Some r else None)"
| "reason_of i _ = None"

text \<open>
  The most recent status transition on \<open>i\<close> in a sequence of actions (the first
  action of the list is the oldest), and the reason of the most recent rejection.
\<close>

fun last_transition :: "string \<Rightarrow> 'p action list \<Rightarrow> string option" where
  "last_transition i [] = None"
| "last_transition i (a # as) =
     (case last_transition i as of Some t \<Rightarrow> Some t | None \<Rightarrow> transition_of i a)"

fun last_rejection :: "string \<Rightarrow> 'p action list \<Rightarrow> string option" where
  "last_rejection i [] = None"
| "last_rejection i (a # as) =
     (case last_rejection i as of Some r \<Rightarrow> Some r | None \<Rightarrow> reason_of i a)"

subsection \<open>Sample data\<close>

abbreviation sample_booking :: "string \<Rightarrow> string \<Rightarrow> unit Booking" where
  "sample_booking i s \<equiv>
     \<lparr>booking_id = i, status = s, rejectionReason = None, meetingLink = None,
      other_fields = ()\<rparr>"

abbreviation sample_page :: "unit Booking list \<Rightarrow> unit page" where
  "sample_page S \<equiv>
     \<lparr>bookings = S, loading = False, globalFilter = [], statusFilter = ''all'',
      effects = []\<rparr>"

abbreviation permission_denied :: thrown where
  "permission_denied \<equiv>
     ErrorObject
       \<lparr>message = Some ''Missing or insufficient permissions'',
        code = Some ''permission-denied''\<rparr>"

section \<open>Properties\<close>

lemmas prims =
  emit_def navigate_def toast_error_def toast_success_def console_error_def
  setBookings_def setLoading_def

lemmas handlers = handleApprove_def handleReject_def handleGenerateMeetLink_def

subsection \<open>Helper lemmas\<close>

lemma map_if_absent:
  "i \<notin> key ` set xs \<Longrightarrow> map (\<lambda>b. if key b = i then g b else b) xs = xs"
  by (induction xs) auto

lemma dispatch_length: "length (bookings (dispatch a st)) = length (bookings st)"
  by (cases a)
     (auto simp: handlers prims Let_def split: sum.splits option.splits thrown.splits)

lemma dispatch_nth:
  assumes "k < length (bookings st)"
  shows "booking_id (bookings (dispatch a st) ! k) = booking_id (bookings st ! k)
       \<and> status (bookings (dispatch a st) ! k)
         = (case transition_of (booking_id (bookings st ! k)) a of
              Some t \<Rightarrow> t | None \<Rightarrow> status (bookings st ! k))
       \<and> rejectionReason (bookings (dispatch a st) ! k)
         = (case reason_of (booking_id (bookings st ! k)) a of
              Some r \<Rightarrow> Some r | None \<Rightarrow> rejectionReason (bookings st ! k))"
proof (cases a)
  case (Approve j b response)
  then show ?thesis
    using assms
    by (cases response)
       (simp_all add: handleApprove_def prims Let_def split: thrown.splits)
next
  case (Reject j b reason response)
  then show ?thesis
    using assms
    by (cases reason; cases response)
       (simp_all add: handleReject_def prims Let_def split: thrown.splits)
next
  case (GenerateLink j b response)
  then show ?thesis
    using assms
    by (cases response)
       (simp_all add: handleGenerateMeetLink_def prims Let_def split: thrown.splits)
qed

lemma run_length: "length (bookings (run acts st)) = length (bookings st)"
  by (induction acts arbitrary: st) (simp_all add: dispatch_length)

lemma run_nth:
  assumes "k < length (bookings st)"
  shows "booking_id (bookings (run acts st) ! k) = booking_id (bookings st ! k)
       \<and> status (bookings (run acts st) ! k)
         = (case last_transition (booking_id (bookings st ! k)) acts of
              Some t \<Rightarrow> t | None \<Rightarrow> status (bookings st ! k))
       \<and> rejectionReason (bookings (run acts st) ! k)
         = (case last_rejection (booking_id (bookings st ! k)) acts of
              Some r \<Rightarrow> Some r | None \<Rightarrow> rejectionReason (bookings st ! k))"
  using assms
proof (induction acts arbitrary: st)
  case Nil
  then show ?case by simp
next
  case (Cons a acts)
  have k: "k < length (bookings (dispatch a st))"
    using Cons.prems by (simp add: dispatch_length)
  show ?case
    using Cons.IH[OF k] dispatch_nth[OF Cons.prems, of a]
    by (simp split: option.splits)
qed

lemma transition_rejected_reason:
  "transition_of i a = Some ''rejected'' \<Longrightarrow> reason_of i a \<noteq> None"
  by (cases "(i, a)" rule: transition_of.cases) (auto split: if_splits)

lemma last_transition_rejected:
  "last_transition i acts = Some ''rejected'' \<Longrightarrow> last_rejection i acts \<noteq> None"
proof (induction acts)
  case Nil
  then show ?case by simp
next
  case (Cons a acts)
  then show ?case
    by (auto split: option.splits dest: transition_rejected_reason)
qed

subsection \<open>Failures of the service call\<close>



text \<open>
  C2. The claim asks every mutation to navigate to the login page when the error carries
  the permission-denied code. At the error
  \<open>{code: 'permission-denied', message: 'Missing or insufficient permissions'}\<close> the three
  handlers emit the error notification and stop, while \<open>loadBookings\<close>, whose catch
  block tests the code as well, navigates on the same error.
\<close>

theorem permission_denied_code_ignored_by_mutations:
  "effects (handleApprove (Inl permission_denied) ''1''
              (sample_booking ''1'' ''pending'') (sample_page [sample_booking ''1'' ''pending'']))
     = [UpdateBookingStatus ''1'' ''approved'' None,
        ConsoleError ''Error approving booking:'' permission_denied,
        ToastError ''Missing or insufficient permissions'']
   \<and> effects (handleReject (Some ''late'') (Inl permission_denied) ''1''
              (sample_booking ''1'' ''pending'') (sample_page [sample_booking ''1'' ''pending'']))
     = [WindowPrompt ''Please enter a reason for rejection:'',
        UpdateBookingStatus ''1'' ''rejected'' (Some ''late''),
        ConsoleError ''Error rejecting booking:'' permission_denied,
        ToastError ''Missing or insufficient permissions'']
   \<and> effects (handleGenerateMeetLink (Inl permission_denied) ''1''
              (sample_booking ''1'' ''pending'') (sample_page [sample_booking ''1'' ''pending'']))
     = [GenerateMeetingLink ''1'',
        ConsoleError ''Error generating meeting link:'' permission_denied,
        ToastError ''Missing or insufficient permissions'']
   \<and> effects (loadBookings (Some ()) True (Inl permission_denied)
              ((sample_page [])\<lparr>loading := True\<rparr>))
     = [FetchBookings,
        ConsoleError ''Error fetching bookings:'' permission_denied,
        ToastError ''Missing or insufficient permissions'',
        Navigate ''/admin/login'']"
  by (simp add: handlers loadBookings_def prims or_else_def Let_def)

subsection \<open>The patch applied on success\<close>

text \<open>
  C3. When the id \<open>i\<close> occurs in the store, the patch that each handler applies on
  success keeps the number and the positions of the records; the record at a position is
  the merge of the handler's fields over the record that was there when its id is \<open>i\<close>,
  and the record that was there otherwise. (Equality of values stands for identity of
  objects.)
\<close>

theorem patch_changes_only_matching:
  assumes "i \<in> booking_id ` set (bookings st)"
  shows
  "length (bookings (handleApprove (Inr u) i b st)) = length (bookings st)
   \<and> (\<forall>k < length (bookings st).
         bookings (handleApprove (Inr u) i b st) ! k
           = (if booking_id (bookings st ! k) = i
              then (bookings st ! k)\<lparr>status := ''approved''\<rparr>
              else bookings st ! k))
   \<and> length (bookings (handleReject (Some r) (Inr u) i b st)) = length (bookings st)
   \<and> (\<forall>k < length (bookings st).
         bookings (handleReject (Some r) (Inr u) i b st) ! k
           = (if booking_id (bookings st ! k) = i
              then (bookings st ! k)\<lparr>status := ''rejected'', rejectionReason := Some r\<rparr>
              else bookings st ! k))
   \<and> length (bookings (handleGenerateMeetLink (Inr l) i b st)) = length (bookings st)
   \<and> (\<forall>k < length (bookings st).
         bookings (handleGenerateMeetLink (Inr l) i b st) ! k
           = (if booking_id (bookings st ! k) = i
              then (bookings st ! k)\<lparr>meetingLink := Some l\<rparr>
              else bookings st ! k))"
  by (simp add: handlers prims Let_def)

theorem patch_changes_only_matching_witness:
  "''1'' \<in> booking_id ` set (bookings
       (sample_page [sample_booking ''1'' ''pending'', sample_booking ''2'' ''pending'']))
   \<and> bookings (handleApprove (Inr ()) ''1'' (sample_booking ''1'' ''pending'')
       (sample_page [sample_booking ''1'' ''pending'', sample_booking ''2'' ''pending'']))
     = [sample_booking ''1'' ''approved'', sample_booking ''2'' ''pending'']
   \<and> bookings (handleReject (Some ''late'') (Inr ()) ''1'' (sample_booking ''1'' ''pending'')
       (sample_page [sample_booking ''1'' ''pending'', sample_booking ''2'' ''pending'']))
     = [(sample_booking ''1'' ''rejected'')\<lparr>rejectionReason := Some ''late''\<rparr>,
        sample_booking ''2'' ''pending'']
   \<and> bookings (handleGenerateMeetLink (Inr ''https://meet/x'') ''1''
       (sample_booking ''1'' ''pending'')
       (sample_page [sample_booking ''1'' ''pending'', sample_booking ''2'' ''pending'']))
     = [(sample_booking ''1'' ''pending'')\<lparr>meetingLink := Some ''https://meet/x''\<rparr>,
        sample_booking ''2'' ''pending'']"
proof -
  let ?st = "sample_page [sample_booking ''1'' ''pending'', sample_booking ''2'' ''pending'']"
  have h: "''1'' \<in> booking_id ` set (bookings ?st)"
    by simp
  show ?thesis
    using h patch_changes_only_matching [OF h, of "()" "sample_booking ''1'' ''pending''"
        "''late''" "''https://meet/x''"]
    by (simp add: handlers prims Let_def)
qed

text \<open>
  C4. When the id \<open>i\<close> does not occur in the store, the patch of each handler, whatever
  the reason or the link it carries, leaves the store as it was. The handler does not
  fail: it still reports success.
\<close>

theorem patch_absent_id_noop:
  assumes "i \<notin> booking_id ` set (bookings st)"
  shows
  "bookings (handleApprove (Inr u) i b st) = bookings st
   \<and> bookings (handleReject (Some r) (Inr u) i b st) = bookings st
   \<and> bookings (handleGenerateMeetLink (Inr l) i b st) = bookings st
   \<and> last (effects (handleApprove (Inr u) i b st))
       = ToastSuccess ''Booking approved successfully''
   \<and> last (effects (handleReject (Some r) (Inr u) i b st))
       = ToastSuccess ''Booking rejected successfully''
   \<and> last (effects (handleGenerateMeetLink (Inr l) i b st))
       = ToastSuccess ''Meeting link generated successfully''"
  using assms by (simp add: handlers prims Let_def map_if_absent)

theorem patch_absent_id_noop_witness:
  "''9'' \<notin> booking_id ` set (bookings
       (sample_page [sample_booking ''1'' ''pending'', sample_booking ''2'' ''approved'']))
   \<and> bookings (handleApprove (Inr ()) ''9'' (sample_booking ''9'' ''pending'')
       (sample_page [sample_booking ''1'' ''pending'', sample_booking ''2'' ''approved'']))
     = [sample_booking ''1'' ''pending'', sample_booking ''2'' ''approved'']
   \<and> bookings (handleReject (Some ''late'') (Inr ()) ''9'' (sample_booking ''9'' ''pending'')
       (sample_page [sample_booking ''1'' ''pending'', sample_booking ''2'' ''approved'']))
     = [sample_booking ''1'' ''pending'', sample_booking ''2'' ''approved'']
   \<and> bookings (handleGenerateMeetLink (Inr ''https://meet/x'') ''9''
       (sample_booking ''9'' ''pending'')
       (sample_page [sample_booking ''1'' ''pending'', sample_booking ''2'' ''approved'']))
     = [sample_booking ''1'' ''pending'', sample_booking ''2'' ''approved'']"
proof -
  let ?st = "sample_page [sample_booking ''1'' ''pending'', sample_booking ''2'' ''approved'']"
  have h: "''9'' \<notin> booking_id ` set (bookings ?st)"
    by simp
  show ?thesis
    using h patch_absent_id_noop [OF h, of "()" "sample_booking ''9'' ''pending''"
        "''late''" "''https://meet/x''"]
    by simp
qed

subsection \<open>The rejection prompt\<close>

text \<open>
  C5. When the rejection-reason prompt returns null, Reject stops there: the trace gains
  the prompt alone (no service call, no success or error notification, no navigation) and
  the bookings are the ones before, whatever the service would have answered.
\<close>

theorem reject_cancelled_aborts:
  "bookings (handleReject None response bookingId booking st) = bookings st
   \<and> effects (handleReject None response bookingId booking st)
       = effects st @ [WindowPrompt ''Please enter a reason for rejection:'']
   \<and> handleReject None response bookingId booking st
       = st\<lparr>effects := effects st @ [WindowPrompt ''Please enter a reason for rejection:'']\<rparr>"
  by (simp add: handleReject_def emit_def)

text \<open>
  C10. Only null aborts Reject: the trace ends with the prompt exactly when the prompt
  returned null. With the empty string as the reason the service is called with that
  reason, whatever it will answer, and when it succeeds the store keeps its length, every
  record with the given id has status rejected and the empty string as its
  rejectionReason, and success is reported.
\<close>

theorem reject_empty_reason_proceeds:
  "(effects (handleReject reason response i b st)
      = effects st @ [WindowPrompt ''Please enter a reason for rejection:''])
     = (reason = None)
   \<and> take (length (effects st) + 2) (effects (handleReject (Some []) response i b st))
       = effects st
         @ [WindowPrompt ''Please enter a reason for rejection:'',
            UpdateBookingStatus i ''rejected'' (Some [])]
   \<and> effects (handleReject (Some []) (Inr u) i b st)
       = effects st
         @ [WindowPrompt ''Please enter a reason for rejection:'',
            UpdateBookingStatus i ''rejected'' (Some []),
            ToastSuccess ''Booking rejected successfully'']
   \<and> length (bookings (handleReject (Some []) (Inr u) i b st)) = length (bookings st)
   \<and> (\<forall>k < length (bookings st).
         booking_id (bookings st ! k) = i \<longrightarrow>
           status (bookings (handleReject (Some []) (Inr u) i b st) ! k) = ''rejected''
           \<and> rejectionReason (bookings (handleReject (Some []) (Inr u) i b st) ! k)
               = Some [])"
  by (cases reason; cases response)
     (simp_all add: handleReject_def prims Let_def split: thrown.splits)

theorem reject_empty_reason_proceeds_witness:
  "effects (handleReject (Some []) (Inr ()) ''2'' (sample_booking ''2'' ''pending'')
       (sample_page [sample_booking ''2'' ''pending'']))
     = [WindowPrompt ''Please enter a reason for rejection:'',
        UpdateBookingStatus ''2'' ''rejected'' (Some []),
        ToastSuccess ''Booking rejected successfully'']
   \<and> (0::nat) < length (bookings (sample_page [sample_booking ''2'' ''pending'']))
   \<and> booking_id (bookings (sample_page [sample_booking ''2'' ''pending'']) ! 0) = ''2''
   \<and> status (bookings (handleReject (Some []) (Inr ()) ''2'' (sample_booking ''2'' ''pending'')
       (sample_page [sample_booking ''2'' ''pending''])) ! 0) = ''rejected''
   \<and> rejectionReason (bookings (handleReject (Some []) (Inr ()) ''2''
       (sample_booking ''2'' ''pending'') (sample_page [sample_booking ''2'' ''pending''])) ! 0)
     = Some []"
  using reject_empty_reason_proceeds [of "Some []" "Inr ()" "''2''"
      "sample_booking ''2'' ''pending''" "sample_page [sample_booking ''2'' ''pending'']" "()"]
  by simp

subsection \<open>The rows handed to the table\<close>

text \<open>
  C6. With the status selector on "approved", the table receives exactly the bookings of
  the store whose status is approved, in the store's order, whatever the query text is;
  the query text is handed on beside them and not applied.
\<close>

theorem approved_filter_ignores_query:
  "render \<lparr>bookings = S, loading = False, globalFilter = q, statusFilter = ''approved'',
           effects = t\<rparr>
     = Dashboard \<lparr>bookings_prop = filter (\<lambda>b. status b = ''approved'') S,
                  globalFilter_prop = q\<rparr>"
  by (simp add: render_def)

text \<open>
  C7. With the empty query text and the status selector on "all", the table receives the
  whole store in its order. Rendering computes a view from the page and returns no page:
  the store is not changed by it.
\<close>

theorem all_filter_passes_store:
  "render \<lparr>bookings = S, loading = False, globalFilter = [], statusFilter = ''all'',
           effects = t\<rparr>
     = Dashboard \<lparr>bookings_prop = S, globalFilter_prop = []\<rparr>"
  by (simp add: render_def)

subsection \<open>Page activation\<close>

text \<open>
  C8. Without an authenticated principal, activation only navigates to the login page: no
  fetch, no notification, the bookings untouched. With a principal that is not an
  administrator it emits the "Unauthorized access" notification and then navigates, again
  with no fetch. (Both paths also clear the loading flag.)
\<close>

theorem activation_guard:
  "loadBookings None isAdmin fetched st
     = st\<lparr>loading := False, effects := effects st @ [Navigate ''/admin/login'']\<rparr>
   \<and> loadBookings (Some user) False fetched st
     = st\<lparr>loading := False,
          effects := effects st
            @ [ToastError ''Unauthorized access'', Navigate ''/admin/login'']\<rparr>"
  by (simp add: loadBookings_def prims)

subsection \<open>The rejection reason over a sequence of actions\<close>

text \<open>
  C9, as stated, fails: reject booking 1 with a reason, then approve it, both calls
  succeeding. The most recent status transition of the record is to approved, and the
  record still carries the reason.
\<close>

theorem approve_keeps_rejection_reason:
  "last_transition ''1''
      [Reject ''1'' (sample_booking ''1'' ''pending'') (Some ''schedule conflict'') (Inr ()),
       Approve ''1'' (sample_booking ''1'' ''rejected'') (Inr ())]
     = Some ''approved''
   \<and> bookings (run
      [Reject ''1'' (sample_booking ''1'' ''pending'') (Some ''schedule conflict'') (Inr ()),
       Approve ''1'' (sample_booking ''1'' ''rejected'') (Inr ())]
      (sample_page [sample_booking ''1'' ''pending'']))
     = [(sample_booking ''1'' ''approved'')\<lparr>rejectionReason := Some ''schedule conflict''\<rparr>]"
  by (simp add: handlers prims Let_def)

text \<open>
  C9, amended. From any store (the loaded one in particular), after any sequence of
  Approve, Reject and GenerateMeetingLink actions, the records are the same in number and
  keep their ids, and for the record at a position:
  its rejectionReason is the reason of the most recent successful Reject on its id, or
  the value it had at the start when there was none (no action clears it);
  and when the most recent status transition on its id was to rejected, its status is
  rejected and its rejectionReason is set, to the reason of that rejection.
\<close>

theorem rejection_reason_is_last_rejection:
  assumes "k < length (bookings st)"
  shows
  "length (bookings (run acts st)) = length (bookings st)
   \<and> booking_id (bookings (run acts st) ! k) = booking_id (bookings st ! k)
   \<and> rejectionReason (bookings (run acts st) ! k)
       = (case last_rejection (booking_id (bookings st ! k)) acts of
            Some r \<Rightarrow> Some r
          | None \<Rightarrow> rejectionReason (bookings st ! k))
   \<and> (last_transition (booking_id (bookings st ! k)) acts = Some ''rejected'' \<longrightarrow>
        status (bookings (run acts st) ! k) = ''rejected''
        \<and> rejectionReason (bookings (run acts st) ! k)
            = last_rejection (booking_id (bookings st ! k)) acts
        \<and> rejectionReason (bookings (run acts st) ! k) \<noteq> None)"
proof -
  let ?i = "booking_id (bookings st ! k)"
  note nth = run_nth [OF assms, of acts]
  have "last_transition ?i acts = Some ''rejected'' \<Longrightarrow> last_rejection ?i acts \<noteq> None"
    by (rule last_transition_rejected)
  then show ?thesis
    using nth by (auto simp: run_length split: option.splits)
qed

theorem rejection_reason_is_last_rejection_witness:
  "(0::nat) < length (bookings (sample_page [sample_booking ''2'' ''pending'']))
   \<and> last_transition ''2''
        [Reject ''2'' (sample_booking ''2'' ''pending'') (Some ''schedule conflict'') (Inr ())]
       = Some ''rejected''
   \<and> status (bookings (run
        [Reject ''2'' (sample_booking ''2'' ''pending'') (Some ''schedule conflict'') (Inr ())]
        (sample_page [sample_booking ''2'' ''pending''])) ! 0) = ''rejected''
   \<and> rejectionReason (bookings (run
        [Reject ''2'' (sample_booking ''2'' ''pending'') (Some ''schedule conflict'') (Inr ())]
        (sample_page [sample_booking ''2'' ''pending''])) ! 0) = Some ''schedule conflict''"
proof -
  let ?st = "sample_page [sample_booking ''2'' ''pending'']"
  have h: "(0::nat) < length (bookings ?st)"
    by simp
  show ?thesis
    using h rejection_reason_is_last_rejection [OF h, of
        "[Reject ''2'' (sample_booking ''2'' ''pending'') (Some ''schedule conflict'') (Inr ())]"]
    by simp
qed

end
